theory Spec2Isabelle
  imports Complex_Main "HOL-Library.Word"
begin

unbundle bit_operations_syntax

section \<open>Data model of package db\<close>

text \<open>
  A Go \<^verbatim>\<open>error\<close> value is \<open>err option\<close>: \<open>None\<close> is \<^verbatim>\<open>nil\<close>. \<open>EOF\<close> is
  \<^verbatim>\<open>io.EOF\<close>, \<open>PgError\<close> a \<^verbatim>\<open>*pgconn.PgError\<close>; every error but \<open>EOF\<close> carries
  its message.
\<close>

datatype err = EOF | PgError string | Err string

text \<open>\<^verbatim>\<open>pgtype.Status\<close>: \<^verbatim>\<open>Undefined = 0, Null = 1, Present = 2\<close>.\<close>

datatype Status = Undefined | Null | Present

text \<open>
  The dynamic values (\<^verbatim>\<open>interface{}\<close>) that the type switches of
  \<^verbatim>\<open>formatToBinaryData\<close>, \<^verbatim>\<open>formatTimestamps\<close> and \<^verbatim>\<open>formataToNativeType\<close>
  tell apart. \<open>'t\<close> is \<^verbatim>\<open>time.Time\<close>, \<open>'f\<close> is \<^verbatim>\<open>float64\<close>, \<open>'n\<close> is the payload
  of a \<^verbatim>\<open>pgtype.Numeric\<close>, and \<open>'o\<close> stands for every dynamic type that no case of
  the switches names (\<^verbatim>\<open>int64\<close>, \<^verbatim>\<open>[]byte\<close>, ...). \<open>GoNil\<close> is the nil interface,
  which is also what indexing a map with a missing key returns. Go's \<^verbatim>\<open>int\<close> (\<open>GoInt\<close>)
  is taken at its 64-bit width.
\<close>

datatype ('t, 'f, 'n, 'o) val =
    GoNil
  | Time 't
  | Float64 'f
  | GoInt "64 word"
  | Int32 "32 word"
  | Bool bool
  | String string
  | Timestamptz 't Status
  | Float8 'f Status
  | Int4 "32 word" Status
  | PgBool bool Status
  | Text string Status
  | Numeric 'n Status
  | Other 'o

text \<open>A record is a \<^verbatim>\<open>map[string]interface{}\<close>.\<close>

type_synonym ('t, 'f, 'n, 'o) row = "string \<rightharpoonup> ('t, 'f, 'n, 'o) val"

text \<open>\<^verbatim>\<open>row[col]\<close>: the value stored under the key, the nil interface when there is none.\<close>

definition index :: "('t, 'f, 'n, 'o) row \<Rightarrow> string \<Rightarrow> ('t, 'f, 'n, 'o) val" where
  "index row col = (case row col of None \<Rightarrow> GoNil | Some v \<Rightarrow> v)"

text \<open>
  The library functions the package calls, taken as parameters:
  \<^verbatim>\<open>time.Parse(time.RFC3339, s)\<close>, \<^verbatim>\<open>t.Format(time.RFC3339)\<close>,
  \<^verbatim>\<open>strconv.ParseFloat(s, 64)\<close>, \<^verbatim>\<open>pgtype.Numeric.Value()\<close> (whose result the code
  asserts to be a string), \<^verbatim>\<open>decimal.NewFromString\<close> and
  \<^verbatim>\<open>Decimal.Float64()\<close> (\<open>'d\<close> is \<^verbatim>\<open>decimal.Decimal\<close>), and the order in
  which \<^verbatim>\<open>range\<close> visits the keys of a map, which Go leaves unspecified.
\<close>

record ('t, 'f, 'n, 'o, 'd) libs =
  time_Parse :: "string \<Rightarrow> err + 't"
  time_Format :: "'t \<Rightarrow> string"
  ParseFloat :: "string \<Rightarrow> err + 'f"
  Numeric_Value :: "'n \<Rightarrow> err + string"
  NewFromString :: "string \<Rightarrow> err + 'd"
  Decimal_Float64 :: "'d \<Rightarrow> 'f"
  range_keys :: "('t, 'f, 'n, 'o) row \<Rightarrow> string list"

section \<open>String helpers\<close>

text \<open>\<^verbatim>\<open>strings.Join(elems, sep)\<close>.\<close>

fun Join :: "string list \<Rightarrow> string \<Rightarrow> string" where
  "Join [] sep = []"
| "Join [x] sep = x"
| "Join (x # y # ys) sep = x @ sep @ Join (y # ys) sep"

text \<open>\<^verbatim>\<open>contains\<close>: the loop returns at the first equal element.\<close>

fun contains :: "string list \<Rightarrow> string \<Rightarrow> bool" where
  "contains [] item = False"
| "contains (s # rest) item = (if s = item then True else contains rest item)"

section \<open>Type coercion\<close>

text \<open>\<^verbatim>\<open>err.Error()\<close>, which \<^verbatim>\<open>%v\<close> prints.\<close>

fun Error :: "err \<Rightarrow> string" where
  "Error EOF = ''EOF''"
| "Error (PgError msg) = msg"
| "Error (Err msg) = msg"

text \<open>
  \<^verbatim>\<open>formatTimestamps\<close>. The body of the inner loop stores one value under \<open>col\<close>;
  the inner loop runs over \<open>columnOrder\<close> from an empty \<open>newRow\<close>, the outer one over
  the records.
\<close>

definition formatTimestamps_col ::
  "('t, 'f, 'n, 'o, 'd) libs \<Rightarrow> ('t, 'f, 'n, 'o) row \<Rightarrow> string \<Rightarrow>
   ('t, 'f, 'n, 'o) row \<Rightarrow> ('t, 'f, 'n, 'o) row" where
  "formatTimestamps_col L row col newRow =
     (case index row col of
        Time timestamp \<Rightarrow> newRow(col \<mapsto> String (time_Format L timestamp))
      | String strNum \<Rightarrow>
          (case ParseFloat L strNum of
             Inr num \<Rightarrow> newRow(col \<mapsto> Float64 num)
           | Inl e \<Rightarrow> newRow(col \<mapsto> index row col))
      | _ \<Rightarrow> newRow(col \<mapsto> index row col))"

definition formatTimestamps ::
  "('t, 'f, 'n, 'o, 'd) libs \<Rightarrow> ('t, 'f, 'n, 'o) row list \<Rightarrow> string list \<Rightarrow>
   ('t, 'f, 'n, 'o) row list" where
  "formatTimestamps L data columnOrder =
     map (\<lambda>row. fold (formatTimestamps_col L row) columnOrder Map.empty) data"

text \<open>
  \<^verbatim>\<open>formatToBinaryData\<close>. The function prints on standard output when a time string
  does not parse, so the loop body carries the printed lines next to \<open>newRow\<close>;
  \<^verbatim>\<open>continue\<close> leaves \<open>newRow\<close> as it is. \<^verbatim>\<open>int32(v)\<close> keeps the low 32 bits.
\<close>

definition formatToBinaryData_col ::
  "('t, 'f, 'n, 'o, 'd) libs \<Rightarrow> ('t, 'f, 'n, 'o) row \<Rightarrow> string \<Rightarrow>
   ('t, 'f, 'n, 'o) row \<times> string list \<Rightarrow> ('t, 'f, 'n, 'o) row \<times> string list" where
  "formatToBinaryData_col L row col st =
     (case st of (newRow, out) \<Rightarrow>
       (case index row col of
          Time v \<Rightarrow> (newRow(col \<mapsto> Timestamptz v Present), out)
        | Float64 v \<Rightarrow> (newRow(col \<mapsto> Float8 v Present), out)
        | GoInt v \<Rightarrow> (newRow(col \<mapsto> Int32 (ucast v)), out)
        | Bool v \<Rightarrow> (newRow(col \<mapsto> PgBool v Present), out)
        | String v \<Rightarrow>
            (if col = ''time'' then
               (case time_Parse L v of
                  Inl e \<Rightarrow> (newRow, out @ [''Error parsing time: '' @ Error e @ [CHR 0x0A]])
                | Inr t \<Rightarrow> (newRow(col \<mapsto> Timestamptz t Present), out))
             else (newRow(col \<mapsto> Text v Present), out))
        | _ \<Rightarrow> (newRow(col \<mapsto> index row col), out)))"

fun formatToBinaryData_rows ::
  "('t, 'f, 'n, 'o, 'd) libs \<Rightarrow> ('t, 'f, 'n, 'o) row list \<Rightarrow> string list \<Rightarrow> string list \<Rightarrow>
   ('t, 'f, 'n, 'o) row list \<times> string list" where
  "formatToBinaryData_rows L [] columnOrder out = ([], out)"
| "formatToBinaryData_rows L (row # data) columnOrder out =
     (case fold (formatToBinaryData_col L row) columnOrder (Map.empty, out) of
        (newRow, out') \<Rightarrow>
          (case formatToBinaryData_rows L data columnOrder out' of
             (newData, out'') \<Rightarrow> (newRow # newData, out'')))"

text \<open>The result is the new record set and the lines printed, in order.\<close>

definition formatToBinaryData ::
  "('t, 'f, 'n, 'o, 'd) libs \<Rightarrow> ('t, 'f, 'n, 'o) row list \<Rightarrow> string list \<Rightarrow>
   ('t, 'f, 'n, 'o) row list \<times> string list" where
  "formatToBinaryData L data columnOrder = formatToBinaryData_rows L data columnOrder []"

text \<open>
  \<^verbatim>\<open>formataToNativeType\<close>. The inner loop ranges over the map itself, in the order
  \<open>range_keys\<close> gives; \<^verbatim>\<open>int(v.Int)\<close> sign-extends.
\<close>

definition formataToNativeType_col ::
  "('t, 'f, 'n, 'o, 'd) libs \<Rightarrow> ('t, 'f, 'n, 'o) row \<Rightarrow> string \<Rightarrow>
   ('t, 'f, 'n, 'o) row \<times> string list \<Rightarrow> ('t, 'f, 'n, 'o) row \<times> string list" where
  "formataToNativeType_col L row col st =
     (case st of (newRow, out) \<Rightarrow>
       (case index row col of
          Timestamptz t s \<Rightarrow> (if s = Present then (newRow(col \<mapsto> Time t), out) else (newRow, out))
        | Float8 f s \<Rightarrow> (if s = Present then (newRow(col \<mapsto> Float64 f), out) else (newRow, out))
        | Int4 i s \<Rightarrow> (if s = Present then (newRow(col \<mapsto> GoInt (scast i)), out) else (newRow, out))
        | PgBool b s \<Rightarrow> (if s = Present then (newRow(col \<mapsto> Bool b), out) else (newRow, out))
        | Text str s \<Rightarrow> (if s = Present then (newRow(col \<mapsto> String str), out) else (newRow, out))
        | Numeric n s \<Rightarrow>
            (if s = Present then
               (case Numeric_Value L n of
                  Inl e \<Rightarrow>
                    (newRow, out @ [''Error converting Numeric to decimal.Decimal: ''
                                     @ Error e @ [CHR 0x0A]])
                | Inr decimalVal \<Rightarrow>
                    (case NewFromString L decimalVal of
                       Inl e \<Rightarrow>
                         (newRow, out @ [''Error converting string to decimal.Decimal: ''
                                          @ Error e @ [CHR 0x0A]])
                     | Inr decimalValue \<Rightarrow>
                         (newRow(col \<mapsto> Float64 (Decimal_Float64 L decimalValue)), out)))
             else (newRow, out))
        | value \<Rightarrow> (newRow(col \<mapsto> value), out)))"

fun formataToNativeType_rows ::
  "('t, 'f, 'n, 'o, 'd) libs \<Rightarrow> ('t, 'f, 'n, 'o) row list \<Rightarrow> string list \<Rightarrow>
   ('t, 'f, 'n, 'o) row list \<times> string list" where
  "formataToNativeType_rows L [] out = ([], out)"
| "formataToNativeType_rows L (row # data) out =
     (case fold (formataToNativeType_col L row) (range_keys L row) (Map.empty, out) of
        (newRow, out') \<Rightarrow>
          (case formataToNativeType_rows L data out' of
             (newData, out'') \<Rightarrow> (newRow # newData, out'')))"

definition formataToNativeType ::
  "('t, 'f, 'n, 'o, 'd) libs \<Rightarrow> ('t, 'f, 'n, 'o) row list \<Rightarrow>
   ('t, 'f, 'n, 'o) row list \<times> string list" where
  "formataToNativeType L data = formataToNativeType_rows L data []"

text \<open>\<^verbatim>\<open>getColumns\<close>: the keys of the first record, in \<^verbatim>\<open>range\<close> order.\<close>

definition getColumns ::
  "('t, 'f, 'n, 'o, 'd) libs \<Rightarrow> ('t, 'f, 'n, 'o) row list \<Rightarrow> string list" where
  "getColumns L data = (if length data = 0 then [] else range_keys L (data ! 0))"

section \<open>The bulk-load cursor\<close>

text \<open>
  \<^verbatim>\<open>mapCopyFromSource\<close>. \<open>pos\<close> only counts up from 0 to \<open>len(data)\<close>, so it is a
  \<open>nat\<close>. \<^verbatim>\<open>Values\<close> mutates the receiver, so it returns the cursor next to its
  result; \<^verbatim>\<open>Next\<close> and \<^verbatim>\<open>Err\<close> only read it. \<open>Err_src\<close> is the method
  \<^verbatim>\<open>Err\<close>.
\<close>

record ('t, 'f, 'n, 'o) mapCopyFromSource =
  src_data :: "('t, 'f, 'n, 'o) row list"
  src_pos :: nat
  src_columns :: "string list"

definition newMapCopyFromSource ::
  "('t, 'f, 'n, 'o) row list \<Rightarrow> string list \<Rightarrow> ('t, 'f, 'n, 'o) mapCopyFromSource" where
  "newMapCopyFromSource data columnsOrder =
     \<lparr>src_data = data, src_pos = 0, src_columns = columnsOrder\<rparr>"

definition Next :: "('t, 'f, 'n, 'o) mapCopyFromSource \<Rightarrow> bool" where
  "Next m = (src_pos m < length (src_data m))"

definition Values ::
  "('t, 'f, 'n, 'o) mapCopyFromSource \<Rightarrow>
   (err + ('t, 'f, 'n, 'o) val list) \<times> ('t, 'f, 'n, 'o) mapCopyFromSource" where
  "Values m =
     (if \<not> Next m then (Inl EOF, m)
      else (Inr (map (\<lambda>col. index (src_data m ! src_pos m) col) (src_columns m)),
            m\<lparr>src_pos := src_pos m + 1\<rparr>))"

definition Err_src :: "('t, 'f, 'n, 'o) mapCopyFromSource \<Rightarrow> err option" where
  "Err_src m = None"

section \<open>The merge statement\<close>

text \<open>
  The loop of \<^verbatim>\<open>buildUpdateValuesWithExcluded\<close>, with \<^verbatim>\<open>updateAssignments\<close> as its
  accumulator, then the join.
\<close>

fun updateAssignments_loop :: "string list \<Rightarrow> string list \<Rightarrow> string list \<Rightarrow> string list" where
  "updateAssignments_loop [] primaryKey updateAssignments = updateAssignments"
| "updateAssignments_loop (col # columns) primaryKey updateAssignments =
     updateAssignments_loop columns primaryKey
       (if \<not> contains primaryKey col
        then updateAssignments @ [col @ '' = EXCLUDED.'' @ col]
        else updateAssignments)"

definition buildUpdateValuesWithExcluded :: "string list \<Rightarrow> string list \<Rightarrow> string" where
  "buildUpdateValuesWithExcluded columns primaryKey =
     Join (updateAssignments_loop columns primaryKey []) '', ''"

text \<open>The \<^verbatim>\<open>insertStmt\<close> that \<^verbatim>\<open>InsertBulkData\<close> formats.\<close>

definition insertStmt :: "string \<Rightarrow> string list \<Rightarrow> string \<Rightarrow> string list \<Rightarrow> string" where
  "insertStmt table columns tempTable primaryKey =
     ''INSERT INTO '' @ table @ '' ('' @ Join columns '', '' @ '') SELECT DISTINCT ''
       @ Join columns '', '' @ '' FROM '' @ tempTable @ '' ON CONFLICT (''
       @ Join primaryKey '', '' @ '') DO UPDATE SET ''
       @ buildUpdateValuesWithExcluded columns primaryKey"

text \<open>
  The merge statement as the specification words it: one assignment
  \<open>col = EXCLUDED.col\<close> for every column that is not a primary-key column, in column
  order.
\<close>

definition spec_set_clause :: "string list \<Rightarrow> string list \<Rightarrow> string" where
  "spec_set_clause columns primaryKey =
     Join (map (\<lambda>col. col @ '' = EXCLUDED.'' @ col)
             (filter (\<lambda>col. col \<notin> set primaryKey) columns)) '', ''"

definition spec_merge_statement :: "string \<Rightarrow> string list \<Rightarrow> string \<Rightarrow> string list \<Rightarrow> string" where
  "spec_merge_statement target columns staging primaryKey =
     ''INSERT INTO '' @ target @ '' ('' @ Join columns '', '' @ '') SELECT DISTINCT ''
       @ Join columns '', '' @ '' FROM '' @ staging @ '' ON CONFLICT (''
       @ Join primaryKey '', '' @ '') DO UPDATE SET '' @ spec_set_clause columns primaryKey"


section \<open>The staging-table name\<close>

text \<open>
  A \<^verbatim>\<open>uuid.UUID\<close> is an array of 16 bytes. \<^verbatim>\<open>UUID.String()\<close> writes the bytes in
  lower-case hexadecimal (\<^verbatim>\<open>hex.Encode\<close>: the high nibble, then the low one), in
  groups of 4, 2, 2, 2 and 6 bytes with a hyphen between two groups.
\<close>

type_synonym UUID = "8 word list"

definition hextable :: string where
  "hextable = ''0123456789abcdef''"

fun hex_Encode :: "8 word list \<Rightarrow> string" where
  "hex_Encode [] = []"
| "hex_Encode (v # src) =
     hextable ! unat (drop_bit 4 v) # hextable ! unat (v AND 0x0f) # hex_Encode src"

definition UUID_String :: "UUID \<Rightarrow> string" where
  "UUID_String uuid =
     hex_Encode (take 4 uuid) @ ''-'' @ hex_Encode (take 2 (drop 4 uuid)) @ ''-''
       @ hex_Encode (take 2 (drop 6 uuid)) @ ''-'' @ hex_Encode (take 2 (drop 8 uuid)) @ ''-''
       @ hex_Encode (drop 10 uuid)"

text \<open>
  \<^verbatim>\<open>strings.ReplaceAll(s, "-", "")\<close>: the old string is the single character
  \<^verbatim>\<open>-\<close> and the new one is empty, so every hyphen is dropped.
\<close>

definition ReplaceAll_hyphen :: "string \<Rightarrow> string" where
  "ReplaceAll_hyphen s = filter (\<lambda>c. c \<noteq> CHR ''-'') s"

text \<open>
  \<^verbatim>\<open>generateUniqueTempTableName\<close>; \<open>uniqueID\<close> is the value \<^verbatim>\<open>uuid.New()\<close> draws.
\<close>

definition generateUniqueTempTableName :: "string \<Rightarrow> UUID \<Rightarrow> string" where
  "generateUniqueTempTableName table uniqueID =
     (let cleanedUUID = ReplaceAll_hyphen (UUID_String uniqueID)
      in ''temp_'' @ table @ ''_'' @ cleanedUUID)"

section \<open>The transaction\<close>

text \<open>
  The calls \<^verbatim>\<open>InsertBulkData\<close> makes on the pool and on the transaction, as they are
  recorded in the order they are made.
\<close>

datatype ('t, 'f, 'n, 'o) pgx_call =
    CallBegin
  | CallExec string
  | CallCopyFrom string "string list" "('t, 'f, 'n, 'o) mapCopyFromSource"
  | CallCommit
  | CallRollback

text \<open>
  The database as the call sees it: \<open>committed\<close> is the content every session
  observes, \<open>tx\<close> the working content of the open transaction (\<open>None\<close> when no
  transaction is open), \<open>stdout\<close> and \<open>logged\<close> the lines written with
  \<^verbatim>\<open>fmt.Printf\<close> and \<^verbatim>\<open>log.Printf\<close>.
\<close>

record ('tbl, 't, 'f, 'n, 'o) world =
  committed :: 'tbl
  tx :: "'tbl option"
  calls :: "('t, 'f, 'n, 'o) pgx_call list"
  stdout :: "string list"
  logged :: "string list"

text \<open>
  What the server answers to each call is a parameter: an error, or the new working
  content. The deadline of \<^verbatim>\<open>ctxWithTimeout\<close> is part of it: a call that runs past it
  answers with an error.
\<close>

record ('tbl, 't, 'f, 'n, 'o) pgx =
  Begin_result :: "err option"
  Exec_result :: "string \<Rightarrow> 'tbl \<Rightarrow> err + 'tbl"
  CopyFrom_result ::
    "string \<Rightarrow> string list \<Rightarrow> ('t, 'f, 'n, 'o) mapCopyFromSource \<Rightarrow> 'tbl \<Rightarrow> err + 'tbl"
  Commit_result :: "'tbl \<Rightarrow> err option"
  Rollback_result :: "err option"

text \<open>
  The transaction of pgx, after its documentation: \<^verbatim>\<open>Commit\<close> closes the
  transaction whether it succeeds or not, and publishes the working content only when
  it succeeds; \<^verbatim>\<open>Rollback\<close> discards the working content of an open transaction,
  and on a closed one it returns \<^verbatim>\<open>ErrTxClosed\<close> and does nothing else; a statement
  on a closed transaction returns \<^verbatim>\<open>ErrTxClosed\<close>.
\<close>

definition ErrTxClosed :: err where
  "ErrTxClosed = Err ''tx is closed''"

definition Pool_Begin ::
  "('tbl, 't, 'f, 'n, 'o) pgx \<Rightarrow> ('tbl, 't, 'f, 'n, 'o) world \<Rightarrow>
   err option \<times> ('tbl, 't, 'f, 'n, 'o) world" where
  "Pool_Begin drv s =
     (case Begin_result drv of
        Some e \<Rightarrow> (Some e, s\<lparr>calls := calls s @ [CallBegin]\<rparr>)
      | None \<Rightarrow> (None, s\<lparr>tx := Some (committed s), calls := calls s @ [CallBegin]\<rparr>))"

definition tx_Exec ::
  "('tbl, 't, 'f, 'n, 'o) pgx \<Rightarrow> string \<Rightarrow> ('tbl, 't, 'f, 'n, 'o) world \<Rightarrow>
   err option \<times> ('tbl, 't, 'f, 'n, 'o) world" where
  "tx_Exec drv sql s =
     (case tx s of
        None \<Rightarrow> (Some ErrTxClosed, s\<lparr>calls := calls s @ [CallExec sql]\<rparr>)
      | Some w \<Rightarrow>
          (case Exec_result drv sql w of
             Inl e \<Rightarrow> (Some e, s\<lparr>calls := calls s @ [CallExec sql]\<rparr>)
           | Inr w' \<Rightarrow> (None, s\<lparr>tx := Some w', calls := calls s @ [CallExec sql]\<rparr>)))"

definition tx_CopyFrom ::
  "('tbl, 't, 'f, 'n, 'o) pgx \<Rightarrow> string \<Rightarrow> string list \<Rightarrow>
   ('t, 'f, 'n, 'o) mapCopyFromSource \<Rightarrow> ('tbl, 't, 'f, 'n, 'o) world \<Rightarrow>
   err option \<times> ('tbl, 't, 'f, 'n, 'o) world" where
  "tx_CopyFrom drv tableName columnNames rowSrc s =
     (case tx s of
        None \<Rightarrow>
          (Some ErrTxClosed, s\<lparr>calls := calls s @ [CallCopyFrom tableName columnNames rowSrc]\<rparr>)
      | Some w \<Rightarrow>
          (case CopyFrom_result drv tableName columnNames rowSrc w of
             Inl e \<Rightarrow>
               (Some e, s\<lparr>calls := calls s @ [CallCopyFrom tableName columnNames rowSrc]\<rparr>)
           | Inr w' \<Rightarrow>
               (None, s\<lparr>tx := Some w',
                         calls := calls s @ [CallCopyFrom tableName columnNames rowSrc]\<rparr>)))"

definition tx_Commit ::
  "('tbl, 't, 'f, 'n, 'o) pgx \<Rightarrow> ('tbl, 't, 'f, 'n, 'o) world \<Rightarrow>
   err option \<times> ('tbl, 't, 'f, 'n, 'o) world" where
  "tx_Commit drv s =
     (case tx s of
        None \<Rightarrow> (Some ErrTxClosed, s\<lparr>calls := calls s @ [CallCommit]\<rparr>)
      | Some w \<Rightarrow>
          (case Commit_result drv w of
             Some e \<Rightarrow> (Some e, s\<lparr>tx := None, calls := calls s @ [CallCommit]\<rparr>)
           | None \<Rightarrow>
               (None, s\<lparr>committed := w, tx := None, calls := calls s @ [CallCommit]\<rparr>)))"

definition tx_Rollback ::
  "('tbl, 't, 'f, 'n, 'o) pgx \<Rightarrow> ('tbl, 't, 'f, 'n, 'o) world \<Rightarrow>
   err option \<times> ('tbl, 't, 'f, 'n, 'o) world" where
  "tx_Rollback drv s =
     (case tx s of
        None \<Rightarrow> (Some ErrTxClosed, s\<lparr>calls := calls s @ [CallRollback]\<rparr>)
      | Some w \<Rightarrow> (Rollback_result drv, s\<lparr>tx := None, calls := calls s @ [CallRollback]\<rparr>))"

text \<open>
  \<^verbatim>\<open>InsertBulkData\<close> from the creation of the staging table to the commit: each
  failing step returns its error at once.
\<close>

definition InsertBulkData_steps ::
  "('tbl, 't, 'f, 'n, 'o) pgx \<Rightarrow> UUID \<Rightarrow> ('t, 'f, 'n, 'o) row list \<Rightarrow> string list \<Rightarrow>
   string \<Rightarrow> string list \<Rightarrow> ('tbl, 't, 'f, 'n, 'o) world \<Rightarrow>
   err option \<times> ('tbl, 't, 'f, 'n, 'o) world" where
  "InsertBulkData_steps drv uniqueID data columns table primaryKey s =
     (let tempTable = generateUniqueTempTableName table uniqueID in
      case tx_Exec drv (''CREATE TEMPORARY TABLE '' @ tempTable @ '' AS TABLE '' @ table
                          @ '' WITH NO DATA'') s of
        (Some e, s1) \<Rightarrow> (Some e, s1)
      | (None, s1) \<Rightarrow>
          (let dataToInsert = newMapCopyFromSource data columns in
           case tx_CopyFrom drv tempTable columns dataToInsert s1 of
             (Some e, s2) \<Rightarrow>
               (Some e,
                s2\<lparr>logged := logged s2 @ [''Error during COPY operation: '' @ Error e]
                      @ (case e of
                           PgError m \<Rightarrow> [''Error details:'' @ [CHR 0x0A] @ Error e @ [CHR 0x0A]]
                         | _ \<Rightarrow> [])\<rparr>)
           | (None, s2) \<Rightarrow>
               (case tx_Exec drv (insertStmt table columns tempTable primaryKey) s2 of
                  (Some e, s3) \<Rightarrow> (Some e, s3)
                | (None, s3) \<Rightarrow>
                    (case tx_Commit drv s3 of
                       (Some e, s4) \<Rightarrow> (Some e, s4)
                     | (None, s4) \<Rightarrow> (None, s4)))))"

text \<open>
  \<^verbatim>\<open>InsertBulkData\<close>. \<^verbatim>\<open>defer tx.Rollback(ctxWithTimeout)\<close> is registered once
  \<^verbatim>\<open>Begin\<close> has succeeded, so the rollback runs after the steps on every path, and its
  result is dropped.
\<close>

definition InsertBulkData ::
  "('t, 'f, 'n, 'o, 'd) libs \<Rightarrow> ('tbl, 't, 'f, 'n, 'o) pgx \<Rightarrow> UUID \<Rightarrow>
   ('t, 'f, 'n, 'o) row list \<Rightarrow> string \<Rightarrow> string list \<Rightarrow> ('tbl, 't, 'f, 'n, 'o) world \<Rightarrow>
   err option \<times> ('tbl, 't, 'f, 'n, 'o) world" where
  "InsertBulkData L drv uniqueID data table primaryKey s =
     (if length data = 0 then (None, s)
      else
        (let columns = getColumns L data;
             data1 = formatTimestamps L data columns
         in case formatToBinaryData L data1 columns of
              (data2, out) \<Rightarrow>
                (case Pool_Begin drv (s\<lparr>stdout := stdout s @ out\<rparr>) of
                   (Some e, s0) \<Rightarrow> (Some e, s0)
                 | (None, s0) \<Rightarrow>
                     (case InsertBulkData_steps drv uniqueID data2 columns table primaryKey s0 of
                        (res, s5) \<Rightarrow> (res, snd (tx_Rollback drv s5))))))"

section \<open>The coercion rules as the specification words them\<close>

text \<open>The stringify pass, value by value.\<close>

definition spec_stringify ::
  "('t, 'f, 'n, 'o, 'd) libs \<Rightarrow> ('t, 'f, 'n, 'o) val \<Rightarrow> ('t, 'f, 'n, 'o) val" where
  "spec_stringify L v =
     (case v of
        Time timestamp \<Rightarrow> String (time_Format L timestamp)
      | String strNum \<Rightarrow>
          (case ParseFloat L strNum of Inr num \<Rightarrow> Float64 num | Inl e \<Rightarrow> String strNum)
      | _ \<Rightarrow> v)"

text \<open>
  The main coercion, value by value: \<open>None\<close> when the field is skipped (a string of
  the time column that does not parse).
\<close>

definition spec_coerce ::
  "('t, 'f, 'n, 'o, 'd) libs \<Rightarrow> string \<Rightarrow> ('t, 'f, 'n, 'o) val \<Rightarrow>
   ('t, 'f, 'n, 'o) val option" where
  "spec_coerce L col v =
     (case v of
        Time t \<Rightarrow> Some (Timestamptz t Present)
      | Float64 f \<Rightarrow> Some (Float8 f Present)
      | GoInt n \<Rightarrow> Some (Int32 (ucast n))
      | Bool b \<Rightarrow> Some (PgBool b Present)
      | String str \<Rightarrow>
          (if col = ''time'' then
             (case time_Parse L str of Inl e \<Rightarrow> None | Inr t \<Rightarrow> Some (Timestamptz t Present))
           else Some (Text str Present))
      | _ \<Rightarrow> Some v)"

text \<open>The lines the main coercion prints for one field.\<close>

definition spec_coerce_output ::
  "('t, 'f, 'n, 'o, 'd) libs \<Rightarrow> string \<Rightarrow> ('t, 'f, 'n, 'o) val \<Rightarrow> string list" where
  "spec_coerce_output L col v =
     (case v of
        String str \<Rightarrow>
          (if col = ''time'' then
             (case time_Parse L str of
                Inl e \<Rightarrow> [''Error parsing time: '' @ Error e @ [CHR 0x0A]]
              | Inr t \<Rightarrow> [])
           else [])
      | _ \<Rightarrow> [])"

text \<open>
  The reverse coercion, value by value: \<open>None\<close> when the key is left out of the
  new record.
\<close>

definition spec_native ::
  "('t, 'f, 'n, 'o, 'd) libs \<Rightarrow> ('t, 'f, 'n, 'o) val \<Rightarrow> ('t, 'f, 'n, 'o) val option" where
  "spec_native L v =
     (case v of
        Timestamptz t s \<Rightarrow> (if s = Present then Some (Time t) else None)
      | Float8 f s \<Rightarrow> (if s = Present then Some (Float64 f) else None)
      | Int4 i s \<Rightarrow> (if s = Present then Some (GoInt (scast i)) else None)
      | PgBool b s \<Rightarrow> (if s = Present then Some (Bool b) else None)
      | Text str s \<Rightarrow> (if s = Present then Some (String str) else None)
      | Numeric n s \<Rightarrow>
          (if s = Present then
             (case Numeric_Value L n of
                Inl e \<Rightarrow> None
              | Inr decimalVal \<Rightarrow>
                  (case NewFromString L decimalVal of
                     Inl e \<Rightarrow> None
                   | Inr decimalValue \<Rightarrow> Some (Float64 (Decimal_Float64 L decimalValue))))
           else None)
      | _ \<Rightarrow> Some v)"

text \<open>The lines the reverse coercion prints for one value.\<close>

definition spec_native_output ::
  "('t, 'f, 'n, 'o, 'd) libs \<Rightarrow> ('t, 'f, 'n, 'o) val \<Rightarrow> string list" where
  "spec_native_output L v =
     (case v of
        Numeric n s \<Rightarrow>
          (if s = Present then
             (case Numeric_Value L n of
                Inl e \<Rightarrow>
                  [''Error converting Numeric to decimal.Decimal: '' @ Error e @ [CHR 0x0A]]
              | Inr decimalVal \<Rightarrow>
                  (case NewFromString L decimalVal of
                     Inl e \<Rightarrow>
                       [''Error converting string to decimal.Decimal: '' @ Error e @ [CHR 0x0A]]
                   | Inr decimalValue \<Rightarrow> []))
           else [])
      | _ \<Rightarrow> [])"

text \<open>
  A tagged value is a value of one of the driver's types, which carry a status;
  it is tagged present when that status is \<open>Present\<close>.
\<close>

fun status_of :: "('t, 'f, 'n, 'o) val \<Rightarrow> Status option" where
  "status_of (Timestamptz t s) = Some s"
| "status_of (Float8 f s) = Some s"
| "status_of (Int4 i s) = Some s"
| "status_of (PgBool b s) = Some s"
| "status_of (Text str s) = Some s"
| "status_of (Numeric n s) = Some s"
| "status_of v = None"

definition tagged :: "('t, 'f, 'n, 'o) val \<Rightarrow> bool" where
  "tagged v = (status_of v \<noteq> None)"

definition tagged_present :: "('t, 'f, 'n, 'o) val \<Rightarrow> bool" where
  "tagged_present v = (status_of v = Some Present)"

section \<open>Example inputs\<close>

text \<open>
  One instance of the library parameters, on which the definitions can be evaluated.
  A time is its number of seconds since the epoch, a float is a real, a numeric is
  given by the text \<^verbatim>\<open>pgtype\<close> renders it as, a decimal by its coefficient and
  exponent. The instance knows one timestamp, one float literal and one decimal;
  \<^verbatim>\<open>pgtype\<close> renders a not-a-number numeric as \<^verbatim>\<open>NaN\<close>, which
  \<^verbatim>\<open>decimal.NewFromString\<close> rejects. \<^verbatim>\<open>range\<close> visits the keys in one fixed order.
\<close>

definition example_libs :: "(nat, real, string, unit, int \<times> int) libs" where
  "example_libs =
     \<lparr>time_Parse = (\<lambda>s. if s = ''2024-01-01T00:00:00Z'' then Inr 1704067200
                          else Inl (Err ''cannot parse as RFC3339'')),
      time_Format = (\<lambda>t. if t = 1704067200 then ''2024-01-01T00:00:00Z''
                           else ''1970-01-01T00:00:00Z''),
      ParseFloat = (\<lambda>s. if s = ''1.5'' then Inr (3 / 2) else Inl (Err ''invalid syntax'')),
      Numeric_Value = (\<lambda>n. Inr n),
      NewFromString = (\<lambda>s. if s = ''15e-1'' then Inr (15, - 1)
                             else Inl (Err (''cannot convert '' @ s @ '' to decimal''))),
      Decimal_Float64 = (\<lambda>d. if d = (15, - 1) then 3 / 2 else 0),
      range_keys = (\<lambda>row. filter (\<lambda>k. row k \<noteq> None)
                      [''id'', ''time'', ''name'', ''ok'', ''val'', ''raw'', ''price''])\<rparr>"

text \<open>One record with a value of each kind, and its column order.\<close>

definition example_record :: "(nat, real, string, unit) row" where
  "example_record =
     [''id'' \<mapsto> GoInt 7, ''time'' \<mapsto> Time 1704067200, ''name'' \<mapsto> String ''abc'',
      ''ok'' \<mapsto> Bool True, ''val'' \<mapsto> Float64 (3 / 2), ''raw'' \<mapsto> Other ()]"

definition example_columns :: "string list" where
  "example_columns = [''id'', ''time'', ''name'', ''ok'', ''val'', ''raw'']"

text \<open>
  A server that accepts every call; its working content is the list of the statements
  it has run. A second one rejects the merge statement.
\<close>

definition example_pgx :: "(string list, nat, real, string, unit) pgx" where
  "example_pgx =
     \<lparr>Begin_result = None,
      Exec_result = (\<lambda>sql w. Inr (w @ [sql])),
      CopyFrom_result = (\<lambda>tableName columnNames rowSrc w. Inr (w @ [''COPY '' @ tableName])),
      Commit_result = (\<lambda>w. None),
      Rollback_result = None\<rparr>"

definition example_pgx_merge_fails :: "(string list, nat, real, string, unit) pgx" where
  "example_pgx_merge_fails =
     example_pgx\<lparr>Exec_result :=
       (\<lambda>sql w. if take 6 sql = ''INSERT'' then Inl (PgError ''duplicate key'')
                 else Inr (w @ [sql]))\<rparr>"

definition example_world :: "(string list, nat, real, string, unit) world" where
  "example_world = \<lparr>committed = [], tx = None, calls = [], stdout = [], logged = []\<rparr>"

definition example_uuid :: UUID where
  "example_uuid = [0x12, 0x3e, 0x45, 0x67, 0xe8, 0x9b, 0x42, 0xd3,
                   0xa4, 0x56, 0x42, 0x66, 0x14, 0x17, 0x40, 0x00]"

section \<open>Properties of the merge statement\<close>

lemma contains_iff: "contains xs item \<longleftrightarrow> item \<in> set xs"
  by (induction xs) auto

lemma updateAssignments_loop_eq:
  "updateAssignments_loop columns primaryKey acc =
     acc @ map (\<lambda>col. col @ '' = EXCLUDED.'' @ col)
             (filter (\<lambda>col. col \<notin> set primaryKey) columns)"
  by (induction columns arbitrary: acc) (simp_all add: contains_iff)

text \<open>
  C2. The statement built by \<^verbatim>\<open>InsertBulkData\<close> is exactly
  \<open>INSERT INTO target (columns) SELECT DISTINCT columns FROM staging ON CONFLICT
  (primary key) DO UPDATE SET ...\<close>, whose SET clause holds one assignment
  \<open>col = EXCLUDED.col\<close> for every column outside the primary-key list, in column order,
  and none for a column of the primary-key list. It holds for every column list and
  primary-key list, the non-empty ones included.
\<close>

theorem insertStmt_is_spec_merge_statement:
  "insertStmt table columns tempTable primaryKey =
     spec_merge_statement table columns tempTable primaryKey"
  by (simp add: insertStmt_def spec_merge_statement_def spec_set_clause_def
        buildUpdateValuesWithExcluded_def updateAssignments_loop_eq)

section \<open>Properties of the coercion passes\<close>

lemma fold_map_upd:
  "fold (\<lambda>col m. m(col \<mapsto> g col)) cols m c = (if c \<in> set cols then Some (g c) else m c)"
  by (induction cols arbitrary: m) auto

lemma formatTimestamps_col_eq:
  "formatTimestamps_col L row = (\<lambda>col newRow. newRow(col \<mapsto> spec_stringify L (index row col)))"
  by (intro ext) (simp add: formatTimestamps_col_def spec_stringify_def split: val.splits sum.splits)

lemma formatTimestamps_length: "length (formatTimestamps L data columnOrder) = length data"
  by (simp add: formatTimestamps_def)

lemma formatTimestamps_nth:
  "i < length data \<Longrightarrow> (formatTimestamps L data columnOrder ! i) c =
     (if c \<in> set columnOrder then Some (spec_stringify L (index (data ! i) c)) else None)"
  by (simp add: formatTimestamps_def formatTimestamps_col_eq fold_map_upd)

lemma formatToBinaryData_col_eq:
  "formatToBinaryData_col L row col (newRow, out) =
     ((case spec_coerce L col (index row col) of None \<Rightarrow> newRow | Some v \<Rightarrow> newRow(col \<mapsto> v)),
      out @ spec_coerce_output L col (index row col))"
  by (simp add: formatToBinaryData_col_def spec_coerce_def spec_coerce_output_def
        split: val.splits sum.splits)

lemma fold_formatToBinaryData_col:
  "fold (formatToBinaryData_col L row) cols (m, out) =
     ((\<lambda>c. if c \<in> set cols
           then (case spec_coerce L c (index row c) of None \<Rightarrow> m c | Some v \<Rightarrow> Some v)
           else m c),
      out @ concat (map (\<lambda>c. spec_coerce_output L c (index row c)) cols))"
proof (induction cols arbitrary: m out)
  case Nil
  show ?case by simp
next
  case (Cons a cols)
  show ?case
    by (simp add: formatToBinaryData_col_eq Cons.IH) (auto split: option.splits)
qed

lemma formatToBinaryData_rows_eq:
  "formatToBinaryData_rows L data cols out =
     (map (\<lambda>row c. if c \<in> set cols then spec_coerce L c (index row c) else None) data,
      out @ concat (map (\<lambda>row. concat (map (\<lambda>c. spec_coerce_output L c (index row c)) cols)) data))"
proof (induction data arbitrary: out)
  case Nil
  show ?case by simp
next
  case (Cons row data)
  have "(\<lambda>c. if c \<in> set cols
           then (case spec_coerce L c (index row c) of None \<Rightarrow> None | Some v \<Rightarrow> Some v)
           else None) = (\<lambda>c. if c \<in> set cols then spec_coerce L c (index row c) else None)"
    by (auto split: option.splits)
  then show ?case
    by (simp add: fold_formatToBinaryData_col Cons.IH)
qed

lemma formataToNativeType_col_fst:
  "fst (formataToNativeType_col L row col (newRow, out)) =
     (case spec_native L (index row col) of None \<Rightarrow> newRow | Some v \<Rightarrow> newRow(col \<mapsto> v))"
  by (simp add: formataToNativeType_col_def spec_native_def split: val.splits sum.splits)

lemma fold_formataToNativeType_col_fst:
  "fst (fold (formataToNativeType_col L row) cols (m, out)) c =
     (if c \<in> set cols then (case spec_native L (index row c) of None \<Rightarrow> m c | Some v \<Rightarrow> Some v)
      else m c)"
proof (induction cols arbitrary: m out)
  case Nil
  show ?case by simp
next
  case (Cons a cols)
  obtain m' out' where st: "formataToNativeType_col L row a (m, out) = (m', out')"
    by (cases "formataToNativeType_col L row a (m, out)")
  have m': "m' = (case spec_native L (index row a) of None \<Rightarrow> m | Some v \<Rightarrow> m(a \<mapsto> v))"
    using formataToNativeType_col_fst [of L row a m out] st by simp
  show ?case
    by (simp add: st Cons.IH) (simp add: m' split: option.splits)
qed

lemma formataToNativeType_rows_length:
  "length (fst (formataToNativeType_rows L data out)) = length data"
proof (induction data arbitrary: out)
  case Nil
  show ?case by simp
next
  case (Cons row data)
  obtain newRow out' where r:
    "fold (formataToNativeType_col L row) (range_keys L row) (Map.empty, out) = (newRow, out')"
    by (cases "fold (formataToNativeType_col L row) (range_keys L row) (Map.empty, out)")
  obtain newData out'' where d: "formataToNativeType_rows L data out' = (newData, out'')"
    by (cases "formataToNativeType_rows L data out'")
  from Cons.IH [of out'] show ?case by (simp add: r d)
qed

lemma formataToNativeType_rows_nth:
  "i < length data \<Longrightarrow>
     (fst (formataToNativeType_rows L data out) ! i) c =
       (if c \<in> set (range_keys L (data ! i)) then spec_native L (index (data ! i) c) else None)"
proof (induction data arbitrary: out i)
  case Nil
  then show ?case by simp
next
  case (Cons row data)
  obtain newRow out' where r:
    "fold (formataToNativeType_col L row) (range_keys L row) (Map.empty, out) = (newRow, out')"
    by (cases "fold (formataToNativeType_col L row) (range_keys L row) (Map.empty, out)")
  obtain newData out'' where d: "formataToNativeType_rows L data out' = (newData, out'')"
    by (cases "formataToNativeType_rows L data out'")
  have nr: "newRow c =
      (if c \<in> set (range_keys L row) then spec_native L (index row c) else None)"
    using fold_formataToNativeType_col_fst [of L row "range_keys L row" Map.empty out c] r
    by (simp split: option.splits)
  show ?case
  proof (cases i)
    case 0
    then show ?thesis by (simp add: r d nr)
  next
    case (Suc j)
    then have "j < length data" using Cons.prems by simp
    from Cons.IH [OF this, of out'] show ?thesis by (simp add: r d Suc)
  qed
qed

lemma formatToBinaryData_length:
  "length (fst (formatToBinaryData L data columnOrder)) = length data"
  by (simp add: formatToBinaryData_def formatToBinaryData_rows_eq)

lemma formatToBinaryData_nth:
  "i < length data \<Longrightarrow> (fst (formatToBinaryData L data columnOrder) ! i) c =
     (if c \<in> set columnOrder then spec_coerce L c (index (data ! i) c) else None)"
  by (simp add: formatToBinaryData_def formatToBinaryData_rows_eq)

text \<open>
  C7. The stringify pass keeps the number of records and, for every record and every
  column of the column order, stores under the column: the RFC3339 string of a
  timestamp; the float of a string that parses as a float; the value itself for a
  string that does not parse and for a value of any other type.
\<close>

theorem formatTimestamps_by_type:
  assumes "i < length data" and "col \<in> set columnOrder"
  shows "length (formatTimestamps L data columnOrder) = length data \<and>
     (formatTimestamps L data columnOrder ! i) col =
       Some (case index (data ! i) col of
          Time timestamp \<Rightarrow> String (time_Format L timestamp)
        | String strNum \<Rightarrow>
            (case ParseFloat L strNum of Inr num \<Rightarrow> Float64 num | Inl e \<Rightarrow> String strNum)
        | v \<Rightarrow> v)"
  using assms
  by (simp add: formatTimestamps_length formatTimestamps_nth spec_stringify_def split: val.splits)

theorem formatTimestamps_by_type_witness:
  "(0::nat) < length [example_record(''val'' \<mapsto> String ''1.5'')]
   \<and> set [''time'', ''name'', ''val'', ''id''] \<subseteq> set example_columns
   \<and> (formatTimestamps example_libs [example_record(''val'' \<mapsto> String ''1.5'')] example_columns ! 0) ''time''
        = Some (String ''2024-01-01T00:00:00Z'')
   \<and> (formatTimestamps example_libs [example_record(''val'' \<mapsto> String ''1.5'')] example_columns ! 0) ''name''
        = Some (String ''abc'')
   \<and> (formatTimestamps example_libs [example_record(''val'' \<mapsto> String ''1.5'')] example_columns ! 0) ''val''
        = Some (Float64 (3 / 2))
   \<and> (formatTimestamps example_libs [example_record(''val'' \<mapsto> String ''1.5'')] example_columns ! 0) ''id''
        = Some (GoInt 7)"
  using formatTimestamps_by_type [of 0 "[example_record(''val'' \<mapsto> String ''1.5'')]" "''time''" example_columns example_libs]
    formatTimestamps_by_type [of 0 "[example_record(''val'' \<mapsto> String ''1.5'')]" "''name''" example_columns example_libs]
    formatTimestamps_by_type [of 0 "[example_record(''val'' \<mapsto> String ''1.5'')]" "''val''" example_columns example_libs]
    formatTimestamps_by_type [of 0 "[example_record(''val'' \<mapsto> String ''1.5'')]" "''id''" example_columns example_libs]
  by (simp add: example_record_def example_columns_def example_libs_def index_def)

text \<open>
  C3. The main coercion pass keeps the number of records and, for every record and
  every column of the column order, maps the value by its dynamic type: a timestamp
  to a timestamptz tagged present, a float to a float8 tagged present, an integer to
  its low 32 bits as a 32-bit integer, a boolean to a bool tagged present, a string
  in a column other than \<open>time\<close> to a text tagged present, and a value of any other
  type to itself.
\<close>

theorem formatToBinaryData_by_type:
  assumes "i < length data" and "col \<in> set columnOrder"
  shows "length (fst (formatToBinaryData L data columnOrder)) = length data \<and>
     (case index (data ! i) col of
        Time v \<Rightarrow>
          (fst (formatToBinaryData L data columnOrder) ! i) col = Some (Timestamptz v Present)
      | Float64 v \<Rightarrow>
          (fst (formatToBinaryData L data columnOrder) ! i) col = Some (Float8 v Present)
      | GoInt v \<Rightarrow>
          (fst (formatToBinaryData L data columnOrder) ! i) col = Some (Int32 (ucast v))
      | Bool v \<Rightarrow>
          (fst (formatToBinaryData L data columnOrder) ! i) col = Some (PgBool v Present)
      | String v \<Rightarrow>
          col \<noteq> ''time'' \<longrightarrow>
          (fst (formatToBinaryData L data columnOrder) ! i) col = Some (Text v Present)
      | v \<Rightarrow> (fst (formatToBinaryData L data columnOrder) ! i) col = Some v)"
  using assms
  by (simp add: formatToBinaryData_length formatToBinaryData_nth spec_coerce_def split: val.splits)

theorem formatToBinaryData_by_type_witness:
  "(0::nat) < length [example_record]
   \<and> set [''id'', ''time'', ''name'', ''ok'', ''val'', ''raw''] \<subseteq> set example_columns
   \<and> map (fst (formatToBinaryData example_libs [example_record] example_columns) ! 0) example_columns
       = [Some (Int32 7), Some (Timestamptz 1704067200 Present), Some (Text ''abc'' Present),
          Some (PgBool True Present), Some (Float8 (3 / 2) Present), Some (Other ())]"
  using formatToBinaryData_by_type [of 0 "[example_record]" "''id''" example_columns example_libs]
    formatToBinaryData_by_type [of 0 "[example_record]" "''time''" example_columns example_libs]
    formatToBinaryData_by_type [of 0 "[example_record]" "''name''" example_columns example_libs]
    formatToBinaryData_by_type [of 0 "[example_record]" "''ok''" example_columns example_libs]
    formatToBinaryData_by_type [of 0 "[example_record]" "''val''" example_columns example_libs]
    formatToBinaryData_by_type [of 0 "[example_record]" "''raw''" example_columns example_libs]
  by (simp add: example_record_def example_columns_def index_def)

text \<open>
  C4, as stated, fails: an integer comes out of the main coercion pass as a bare
  32-bit integer, which carries no present-or-absent tag.
\<close>

theorem formatToBinaryData_untagged_counterexample:
  "\<not> tagged (index (fst (formatToBinaryData example_libs [[''id'' \<mapsto> GoInt 7]] [''id'']) ! 0) ''id'')"
  by (simp add: formatToBinaryData_def formatToBinaryData_col_def index_def tagged_def)

text \<open>
  C4, amended. Every value in the output of the main coercion pass that comes from a
  timestamp, a float, a boolean or a string is a tagged value, tagged present; a value
  that comes from an integer is an untagged 32-bit integer; a value of any other type
  (the nil of a missing or null field included) is the input value itself.
\<close>

theorem formatToBinaryData_tagged_or_passed:
  assumes "i < length data" and "col \<in> set columnOrder"
    and "(fst (formatToBinaryData L data columnOrder) ! i) col = Some w"
  shows "(case index (data ! i) col of
            Time v \<Rightarrow> tagged_present w
          | Float64 v \<Rightarrow> tagged_present w
          | Bool v \<Rightarrow> tagged_present w
          | String v \<Rightarrow> tagged_present w
          | GoInt v \<Rightarrow> w = Int32 (ucast v) \<and> \<not> tagged w
          | v \<Rightarrow> w = v)"
  using assms
  by (auto simp add: formatToBinaryData_nth spec_coerce_def tagged_present_def tagged_def
        split: val.splits if_splits sum.splits)

theorem formatToBinaryData_tagged_or_passed_witness:
  "(0::nat) < length [example_record] \<and> ''ok'' \<in> set example_columns
   \<and> (fst (formatToBinaryData example_libs [example_record] example_columns) ! 0) ''ok''
        = Some (PgBool True Present)
   \<and> tagged_present (PgBool True Present :: (nat, real, string, unit) val)"
  using formatToBinaryData_tagged_or_passed [of 0 "[example_record]" "''ok''" example_columns
      example_libs "PgBool True Present"]
  by (simp add: example_record_def example_columns_def index_def formatToBinaryData_def
        formatToBinaryData_col_def)

text \<open>
  C10, as stated, fails: a numeric that is tagged present and is not a number is left
  out of the returned record, not narrowed to a float.
\<close>

theorem formataToNativeType_numeric_counterexample:
  "(fst (formataToNativeType example_libs [[''price'' \<mapsto> Numeric ''NaN'' Present]]) ! 0) ''price''
     = None"
  by (simp add: formataToNativeType_def formataToNativeType_col_def index_def example_libs_def)

lemma formataToNativeType_col_snd:
  "snd (formataToNativeType_col L row col (newRow, out)) =
     out @ spec_native_output L (index row col)"
  by (simp add: formataToNativeType_col_def spec_native_output_def split: val.splits sum.splits)

lemma fold_formataToNativeType_col_snd:
  "snd (fold (formataToNativeType_col L row) cols (m, out)) =
     out @ concat (map (\<lambda>c. spec_native_output L (index row c)) cols)"
proof (induction cols arbitrary: m out)
  case Nil
  show ?case by simp
next
  case (Cons a cols)
  obtain m' out' where st: "formataToNativeType_col L row a (m, out) = (m', out')"
    by (cases "formataToNativeType_col L row a (m, out)")
  have out': "out' = out @ spec_native_output L (index row a)"
    using formataToNativeType_col_snd [of L row a m out] st by simp
  show ?case by (simp add: st Cons.IH out')
qed

lemma formataToNativeType_rows_snd:
  "snd (formataToNativeType_rows L data out) =
     out @ concat (map (\<lambda>row. concat (map (\<lambda>c. spec_native_output L (index row c))
                                       (range_keys L row))) data)"
proof (induction data arbitrary: out)
  case Nil
  show ?case by simp
next
  case (Cons row data)
  obtain newRow out' where r:
    "fold (formataToNativeType_col L row) (range_keys L row) (Map.empty, out) = (newRow, out')"
    by (cases "fold (formataToNativeType_col L row) (range_keys L row) (Map.empty, out)")
  obtain newData out'' where d: "formataToNativeType_rows L data out' = (newData, out'')"
    by (cases "formataToNativeType_rows L data out'")
  have out': "out' = out @ concat (map (\<lambda>c. spec_native_output L (index row c)) (range_keys L row))"
    using fold_formataToNativeType_col_snd [of L row "range_keys L row" Map.empty out] r by simp
  have out'': "out'' = out' @ concat (map (\<lambda>row. concat (map (\<lambda>c. spec_native_output L (index row c))
                                       (range_keys L row))) data)"
    using Cons.IH [of out'] d by simp
  have "snd (formataToNativeType_rows L (row # data) out) = out''" by (simp add: r d)
  then show ?case by (simp add: out'' out')
qed

lemma formataToNativeType_printed:
  assumes "i < length data" and "col \<in> set (range_keys L (data ! i))"
    and "line \<in> set (spec_native_output L (index (data ! i) col))"
  shows "line \<in> set (snd (formataToNativeType L data))"
proof -
  have "data ! i \<in> set data" using assms(1) by simp
  then show ?thesis
    using assms(2,3) by (auto simp add: formataToNativeType_def formataToNativeType_rows_snd)
qed

text \<open>
  C10, amended. The reverse coercion pass keeps the number of rows and, in every row,
  leaves out the key of a timestamptz, float8, int4, bool, text or numeric whose status
  is not present; unwraps a present one to the plain value; narrows a present numeric
  to a float when its conversion to a decimal succeeds; when that conversion fails, at
  either of its two steps, prints the failure and leaves the key out; and keeps every
  other value as it is.
\<close>

theorem formataToNativeType_by_type:
  assumes "i < length data" and "set (range_keys L (data ! i)) = dom (data ! i)"
  shows "length (fst (formataToNativeType L data)) = length data \<and>
     (fst (formataToNativeType L data) ! i) col =
       (case (data ! i) col of
          None \<Rightarrow> None
        | Some (Timestamptz t s) \<Rightarrow> if s = Present then Some (Time t) else None
        | Some (Float8 f s) \<Rightarrow> if s = Present then Some (Float64 f) else None
        | Some (Int4 n s) \<Rightarrow> if s = Present then Some (GoInt (scast n)) else None
        | Some (PgBool b s) \<Rightarrow> if s = Present then Some (Bool b) else None
        | Some (Text str s) \<Rightarrow> if s = Present then Some (String str) else None
        | Some (Numeric n s) \<Rightarrow>
            if s = Present then
              (case Numeric_Value L n of
                 Inl e \<Rightarrow> None
               | Inr decimalVal \<Rightarrow>
                   (case NewFromString L decimalVal of
                      Inl e \<Rightarrow> None
                    | Inr decimalValue \<Rightarrow> Some (Float64 (Decimal_Float64 L decimalValue))))
            else None
        | Some v \<Rightarrow> Some v)
     \<and> (\<forall>n e. (data ! i) col = Some (Numeric n Present) \<and> Numeric_Value L n = Inl e \<longrightarrow>
           ''Error converting Numeric to decimal.Decimal: '' @ Error e @ [CHR 0x0A]
             \<in> set (snd (formataToNativeType L data)))
     \<and> (\<forall>n decimalVal e.
           (data ! i) col = Some (Numeric n Present) \<and> Numeric_Value L n = Inr decimalVal
             \<and> NewFromString L decimalVal = Inl e \<longrightarrow>
           ''Error converting string to decimal.Decimal: '' @ Error e @ [CHR 0x0A]
             \<in> set (snd (formataToNativeType L data)))"
proof -
  have a: "length (fst (formataToNativeType L data)) = length data"
    by (simp add: formataToNativeType_def formataToNativeType_rows_length)
  have b: "(fst (formataToNativeType L data) ! i) col =
       (case (data ! i) col of
          None \<Rightarrow> None
        | Some (Timestamptz t s) \<Rightarrow> if s = Present then Some (Time t) else None
        | Some (Float8 f s) \<Rightarrow> if s = Present then Some (Float64 f) else None
        | Some (Int4 n s) \<Rightarrow> if s = Present then Some (GoInt (scast n)) else None
        | Some (PgBool b s) \<Rightarrow> if s = Present then Some (Bool b) else None
        | Some (Text str s) \<Rightarrow> if s = Present then Some (String str) else None
        | Some (Numeric n s) \<Rightarrow>
            if s = Present then
              (case Numeric_Value L n of
                 Inl e \<Rightarrow> None
               | Inr decimalVal \<Rightarrow>
                   (case NewFromString L decimalVal of
                      Inl e \<Rightarrow> None
                    | Inr decimalValue \<Rightarrow> Some (Float64 (Decimal_Float64 L decimalValue))))
            else None
        | Some v \<Rightarrow> Some v)"
  proof (cases "(data ! i) col")
    case None
    then have "col \<notin> set (range_keys L (data ! i))" using assms(2) by auto
    then show ?thesis using assms(1) None
      by (simp add: formataToNativeType_def formataToNativeType_rows_nth)
  next
    case (Some v)
    then have "col \<in> set (range_keys L (data ! i))" using assms(2) by auto
    then show ?thesis using assms(1) Some
      by (simp add: formataToNativeType_def formataToNativeType_rows_nth index_def
            spec_native_def split: val.splits)
  qed
  have c: "''Error converting Numeric to decimal.Decimal: '' @ Error e @ [CHR 0x0A]
             \<in> set (snd (formataToNativeType L data))"
    if "(data ! i) col = Some (Numeric n Present)" and "Numeric_Value L n = Inl e" for n e
  proof (rule formataToNativeType_printed [OF assms(1)])
    show "col \<in> set (range_keys L (data ! i))" using that(1) assms(2) by auto
    show "''Error converting Numeric to decimal.Decimal: '' @ Error e @ [CHR 0x0A]
            \<in> set (spec_native_output L (index (data ! i) col))"
      using that by (simp add: spec_native_output_def index_def)
  qed
  have d: "''Error converting string to decimal.Decimal: '' @ Error e @ [CHR 0x0A]
             \<in> set (snd (formataToNativeType L data))"
    if "(data ! i) col = Some (Numeric n Present)" and "Numeric_Value L n = Inr decimalVal"
      and "NewFromString L decimalVal = Inl e" for n decimalVal e
  proof (rule formataToNativeType_printed [OF assms(1)])
    show "col \<in> set (range_keys L (data ! i))" using that(1) assms(2) by auto
    show "''Error converting string to decimal.Decimal: '' @ Error e @ [CHR 0x0A]
            \<in> set (spec_native_output L (index (data ! i) col))"
      using that by (simp add: spec_native_output_def index_def)
  qed
  show ?thesis using a b c d by blast
qed

theorem formataToNativeType_by_type_witness:
  "(0::nat) < length [[''id'' \<mapsto> Int4 7 Present, ''name'' \<mapsto> Text ''abc'' Null,
                       ''price'' \<mapsto> Numeric ''15e-1'' Present,
                       ''val'' \<mapsto> Numeric ''NaN'' Present] :: (nat, real, string, unit) row]
   \<and> set (range_keys example_libs [''id'' \<mapsto> Int4 7 Present, ''name'' \<mapsto> Text ''abc'' Null,
                                     ''price'' \<mapsto> Numeric ''15e-1'' Present,
                                     ''val'' \<mapsto> Numeric ''NaN'' Present])
       = dom [''id'' \<mapsto> Int4 7 Present, ''name'' \<mapsto> Text ''abc'' Null,
              ''price'' \<mapsto> Numeric ''15e-1'' Present,
              ''val'' \<mapsto> Numeric ''NaN'' Present :: (nat, real, string, unit) val]
   \<and> map (fst (formataToNativeType example_libs
               [[''id'' \<mapsto> Int4 7 Present, ''name'' \<mapsto> Text ''abc'' Null,
                 ''price'' \<mapsto> Numeric ''15e-1'' Present,
                 ''val'' \<mapsto> Numeric ''NaN'' Present]]) ! 0) [''id'', ''name'', ''price'', ''val'']
       = [Some (GoInt 7), None, Some (Float64 (3 / 2)), None]
   \<and> ''Error converting string to decimal.Decimal: cannot convert NaN to decimal'' @ [CHR 0x0A]
       \<in> set (snd (formataToNativeType example_libs
               [[''id'' \<mapsto> Int4 7 Present, ''name'' \<mapsto> Text ''abc'' Null,
                 ''price'' \<mapsto> Numeric ''15e-1'' Present,
                 ''val'' \<mapsto> Numeric ''NaN'' Present]]))"
proof -
  let ?row = "[''id'' \<mapsto> Int4 7 Present, ''name'' \<mapsto> Text ''abc'' Null,
               ''price'' \<mapsto> Numeric ''15e-1'' Present,
               ''val'' \<mapsto> Numeric ''NaN'' Present] :: (nat, real, string, unit) row"
  have h1: "(0::nat) < length [?row]" by simp
  have h2: "set (range_keys example_libs ([?row] ! 0)) = dom ([?row] ! 0)"
    by (auto simp add: example_libs_def)
  note t = formataToNativeType_by_type [OF h1 h2]
  have v: "map (fst (formataToNativeType example_libs [?row]) ! 0)
             [''id'', ''name'', ''price'', ''val'']
           = [Some (GoInt 7), None, Some (Float64 (3 / 2)), None]"
    using t [of "''id''"] t [of "''name''"] t [of "''price''"] t [of "''val''"]
    by (simp add: example_libs_def)
  have n1: "([?row] ! 0) ''val'' = Some (Numeric ''NaN'' Present)" by simp
  have n2: "Numeric_Value example_libs ''NaN'' = Inr ''NaN''" by (simp add: example_libs_def)
  have n3: "NewFromString example_libs ''NaN'' = Inl (Err ''cannot convert NaN to decimal'')"
    by (simp add: example_libs_def)
  have p: "''Error converting string to decimal.Decimal: '' @ Error (Err ''cannot convert NaN to decimal'')
             @ [CHR 0x0A] \<in> set (snd (formataToNativeType example_libs [?row]))"
    using t [of "''val''"] n1 n2 n3 by blast
  show ?thesis using h1 h2 v p by simp
qed

text \<open>
  C6. When the value of a record in the column \<open>time\<close> is a string that does not parse
  as an RFC3339 timestamp, the main coercion pass prints the failure, leaves the key
  \<open>time\<close> out of the coerced record, still returns one record for each input record,
  and still stores a value under every other column of every record. The failure is no
  error of the call: an error that \<^verbatim>\<open>InsertBulkData\<close> returns on these records is an
  error that one of its database calls returned.
\<close>

theorem formatToBinaryData_time_parse_failure:
  assumes "i < length data" and "''time'' \<in> set columnOrder"
    and "index (data ! i) ''time'' = String str" and "time_Parse L str = Inl e"
  shows "(fst (formatToBinaryData L data columnOrder) ! i) ''time'' = None
     \<and> ''Error parsing time: '' @ Error e @ [CHR 0x0A] \<in> set (snd (formatToBinaryData L data columnOrder))
     \<and> length (fst (formatToBinaryData L data columnOrder)) = length data
     \<and> (\<forall>j < length data. \<forall>c \<in> set columnOrder.
           c \<noteq> ''time'' \<longrightarrow> (fst (formatToBinaryData L data columnOrder) ! j) c \<noteq> None)
     \<and> (fst (InsertBulkData L drv uniqueID data table primaryKey s) = Some e' \<longrightarrow>
           Begin_result drv = Some e'
           \<or> (\<exists>sql w. Exec_result drv sql w = Inl e')
           \<or> (\<exists>tableName columnNames rowSrc w.
                 CopyFrom_result drv tableName columnNames rowSrc w = Inl e')
           \<or> (\<exists>w. Commit_result drv w = Some e'))"
proof -
  have a: "(fst (formatToBinaryData L data columnOrder) ! i) ''time'' = None"
    using assms by (simp add: formatToBinaryData_nth spec_coerce_def)
  have "''Error parsing time: '' @ Error e @ [CHR 0x0A]
          \<in> set (spec_coerce_output L ''time'' (index (data ! i) ''time''))"
    using assms by (simp add: spec_coerce_output_def)
  moreover have "data ! i \<in> set data" using assms(1) by simp
  ultimately have b: "''Error parsing time: '' @ Error e @ [CHR 0x0A]
     \<in> set (snd (formatToBinaryData L data columnOrder))"
    using assms(2) by (auto simp add: formatToBinaryData_def formatToBinaryData_rows_eq)
  have c: "\<forall>j < length data. \<forall>c \<in> set columnOrder.
           c \<noteq> ''time'' \<longrightarrow> (fst (formatToBinaryData L data columnOrder) ! j) c \<noteq> None"
    by (simp add: formatToBinaryData_nth spec_coerce_def split: val.splits)
  have d: "fst (InsertBulkData L drv uniqueID data table primaryKey s) = Some e' \<longrightarrow>
           Begin_result drv = Some e'
           \<or> (\<exists>sql w. Exec_result drv sql w = Inl e')
           \<or> (\<exists>tableName columnNames rowSrc w.
                 CopyFrom_result drv tableName columnNames rowSrc w = Inl e')
           \<or> (\<exists>w. Commit_result drv w = Some e')"
    by (auto simp add: InsertBulkData_def InsertBulkData_steps_def Let_def Pool_Begin_def
          tx_Exec_def tx_CopyFrom_def tx_Commit_def
          split: prod.splits option.splits sum.splits if_splits)
  show ?thesis using a b c d by (simp add: formatToBinaryData_length)
qed

lemma example_getColumns:
  "getColumns example_libs [example_record(''time'' \<mapsto> String ''yesterday'')] = example_columns"
  by (simp add: getColumns_def example_libs_def example_record_def example_columns_def)

lemma example_coercion_output:
  "snd (formatToBinaryData example_libs
     (formatTimestamps example_libs [example_record(''time'' \<mapsto> String ''yesterday'')]
        example_columns)
     example_columns) = [''Error parsing time: cannot parse as RFC3339'' @ [CHR 0x0A]]"
  by (simp add: formatToBinaryData_def formatToBinaryData_rows_eq spec_coerce_output_def
        formatTimestamps_def formatTimestamps_col_eq fold_map_upd spec_stringify_def index_def
        example_libs_def example_record_def example_columns_def)

lemma example_InsertBulkData_output:
  "fst (InsertBulkData example_libs example_pgx example_uuid
          [example_record(''time'' \<mapsto> String ''yesterday'')] ''prices'' [''id''] example_world)
     = None
   \<and> stdout (snd (InsertBulkData example_libs example_pgx example_uuid
          [example_record(''time'' \<mapsto> String ''yesterday'')] ''prices'' [''id''] example_world))
     = [''Error parsing time: cannot parse as RFC3339'' @ [CHR 0x0A]]"
proof -
  obtain data2 where f: "formatToBinaryData example_libs
     (formatTimestamps example_libs [example_record(''time'' \<mapsto> String ''yesterday'')]
        example_columns)
     example_columns = (data2, [''Error parsing time: cannot parse as RFC3339'' @ [CHR 0x0A]])"
    using example_coercion_output by (metis prod.collapse)
  show ?thesis
    by (simp add: InsertBulkData_def InsertBulkData_steps_def Let_def Pool_Begin_def
          tx_Exec_def tx_CopyFrom_def tx_Commit_def tx_Rollback_def
          example_pgx_def example_world_def example_getColumns f)
qed

theorem formatToBinaryData_time_parse_failure_witness:
  "(0::nat) < length [example_record(''time'' \<mapsto> String ''yesterday'')]
   \<and> ''time'' \<in> set example_columns
   \<and> index ([example_record(''time'' \<mapsto> String ''yesterday'')] ! 0) ''time'' = String ''yesterday''
   \<and> time_Parse example_libs ''yesterday'' = Inl (Err ''cannot parse as RFC3339'')
   \<and> (fst (formatToBinaryData example_libs [example_record(''time'' \<mapsto> String ''yesterday'')]
              example_columns) ! 0) ''time'' = None
   \<and> ''Error parsing time: cannot parse as RFC3339'' @ [CHR 0x0A]
        \<in> set (snd (formatToBinaryData example_libs
                       [example_record(''time'' \<mapsto> String ''yesterday'')] example_columns))
   \<and> fst (InsertBulkData example_libs example_pgx example_uuid
            [example_record(''time'' \<mapsto> String ''yesterday'')] ''prices'' [''id''] example_world)
        = None
   \<and> stdout (snd (InsertBulkData example_libs example_pgx example_uuid
            [example_record(''time'' \<mapsto> String ''yesterday'')] ''prices'' [''id''] example_world))
        = [''Error parsing time: cannot parse as RFC3339'' @ [CHR 0x0A]]"
proof -
  have h1: "(0::nat) < length [example_record(''time'' \<mapsto> String ''yesterday'')]" by simp
  have h2: "''time'' \<in> set example_columns" by (simp add: example_columns_def)
  have h3: "index ([example_record(''time'' \<mapsto> String ''yesterday'')] ! 0) ''time''
              = String ''yesterday''"
    by (simp add: index_def)
  have h4: "time_Parse example_libs ''yesterday'' = Inl (Err ''cannot parse as RFC3339'')"
    by (simp add: example_libs_def)
  show ?thesis
    using h1 h2 h3 h4 example_InsertBulkData_output
      formatToBinaryData_time_parse_failure [OF h1 h2 h3 h4, of example_pgx example_uuid
        "''prices''" "[''id'']" example_world EOF]
    by simp
qed

section \<open>Properties of the bulk-load cursor\<close>

lemma Values_iter:
  "src_pos m \<le> length (src_data m) \<Longrightarrow>
     ((\<lambda>m. snd (Values m)) ^^ k) m = m\<lparr>src_pos := min (src_pos m + k) (length (src_data m))\<rparr>"
proof (induction k)
  case 0
  then show ?case by simp
next
  case (Suc k)
  then show ?case by (auto simp add: Values_def Next_def min_def)
qed

text \<open>
  C5. Over n records and a column order, the cursor that \<^verbatim>\<open>newMapCopyFromSource\<close>
  creates, after any number k of calls of \<^verbatim>\<open>Values\<close>: \<^verbatim>\<open>Next\<close> is true exactly when
  k is less than n, and it returns nothing but that answer (the cursor is not
  changed); when k is less than n the next call of \<^verbatim>\<open>Values\<close> returns the values of
  record k in the column order, nil where the record has no such key; when k is n
  or more it returns \<^verbatim>\<open>io.EOF\<close> and leaves the cursor as it is, so the cursor never
  starts again; \<^verbatim>\<open>Err\<close> returns no error.
\<close>

theorem mapCopyFromSource_single_pass:
  assumes "m = ((\<lambda>m. snd (Values m)) ^^ k) (newMapCopyFromSource data columnsOrder)"
  shows "(Next m \<longleftrightarrow> k < length data)
     \<and> (k < length data \<longrightarrow>
          fst (Values m) = Inr (map (\<lambda>col. index (data ! k) col) columnsOrder))
     \<and> (length data \<le> k \<longrightarrow> Values m = (Inl EOF, m))
     \<and> Err_src m = None"
proof -
  have "m = (newMapCopyFromSource data columnsOrder)\<lparr>src_pos := min k (length data)\<rparr>"
    using Values_iter [of "newMapCopyFromSource data columnsOrder" k] assms
    by (simp add: newMapCopyFromSource_def)
  then show ?thesis
    by (auto simp add: newMapCopyFromSource_def Values_def Next_def Err_src_def)
qed

theorem mapCopyFromSource_single_pass_witness:
  "fst (Values (newMapCopyFromSource [example_record] [''id'', ''ok''])) = Inr [GoInt 7, Bool True]
   \<and> \<not> Next (snd (Values (newMapCopyFromSource [example_record] [''id'', ''ok''])))
   \<and> fst (Values (snd (Values (newMapCopyFromSource [example_record] [''id'', ''ok''])))) = Inl EOF
   \<and> fst (Values (snd (Values (snd (Values (newMapCopyFromSource [example_record] [''id'', ''ok''])))))) = Inl EOF"
  using mapCopyFromSource_single_pass [OF refl, of 0 "[example_record]" "[''id'', ''ok'']"]
    mapCopyFromSource_single_pass [OF refl, of 1 "[example_record]" "[''id'', ''ok'']"]
    mapCopyFromSource_single_pass [OF refl, of 2 "[example_record]" "[''id'', ''ok'']"]
  by (simp add: example_record_def index_def numeral_2_eq_2)

section \<open>Properties of the staging-table name\<close>

lemma unat_high_nibble: "unat (drop_bit 4 (v::8 word)) = unat v div 16"
  by (simp add: drop_bit_eq_div unat_div)

lemma unat_low_nibble: "unat ((v::8 word) AND 0x0f) = unat v mod 16"
proof -
  have "(0x0f :: 8 word) = mask 4" by (simp add: mask_eq_exp_minus_1)
  then have "v AND 0x0f = take_bit 4 v" by (simp add: take_bit_eq_mask)
  then show ?thesis by (simp add: take_bit_eq_mod unat_mod)
qed

lemma hextable_nth_inj:
  assumes "a < 16" and "b < 16" and "hextable ! a = hextable ! b"
  shows "a = b"
proof -
  have "distinct hextable" and "length hextable = 16" by (simp_all add: hextable_def)
  then show ?thesis using assms by (simp add: nth_eq_iff_index_eq)
qed

lemma hextable_nth_mem: "a < 16 \<Longrightarrow> hextable ! a \<in> set hextable"
proof -
  assume "a < 16"
  moreover have "length hextable = 16" by (simp add: hextable_def)
  ultimately show ?thesis by (simp only: nth_mem)
qed

lemma hex_byte_inj:
  fixes v w :: "8 word"
  assumes "hextable ! unat (drop_bit 4 v) = hextable ! unat (drop_bit 4 w)"
    and "hextable ! unat (v AND 0x0f) = hextable ! unat (w AND 0x0f)"
  shows "v = w"
proof -
  have "unat v div 16 < 16" and "unat w div 16 < 16"
    using unsigned_less [of v, where 'a = nat] unsigned_less [of w, where 'a = nat] by simp_all
  moreover have "hextable ! (unat v div 16) = hextable ! (unat w div 16)"
    using assms(1) by (simp only: unat_high_nibble)
  ultimately have hi: "unat v div 16 = unat w div 16"
    by (rule hextable_nth_inj)
  have "hextable ! (unat v mod 16) = hextable ! (unat w mod 16)"
    using assms(2) by (simp only: unat_low_nibble)
  then have lo: "unat v mod 16 = unat w mod 16"
    by (rule hextable_nth_inj [rotated 2]) simp_all
  have "unat v = unat v div 16 * 16 + unat v mod 16" by simp
  also have "\<dots> = unat w div 16 * 16 + unat w mod 16" by (simp only: hi lo)
  also have "\<dots> = unat w" by simp
  finally show ?thesis by (simp only: word_unat_eq_iff)
qed

lemma hex_Encode_inj: "hex_Encode xs = hex_Encode ys \<Longrightarrow> xs = ys"
proof (induction xs arbitrary: ys)
  case Nil
  then show ?case by (cases ys) simp_all
next
  case (Cons x xs)
  show ?case
  proof (cases ys)
    case Nil
    then show ?thesis using Cons.prems by simp
  next
    case (Cons y ys')
    then have "x = y" and "hex_Encode xs = hex_Encode ys'"
      using Cons.prems hex_byte_inj [of x y] by simp_all
    then show ?thesis using Cons.IH [of ys'] Cons by simp
  qed
qed

lemma hex_Encode_append: "hex_Encode (xs @ ys) = hex_Encode xs @ hex_Encode ys"
  by (induction xs) simp_all

lemma hex_Encode_length: "length (hex_Encode xs) = 2 * length xs"
  by (induction xs) simp_all

lemma hex_Encode_set: "set (hex_Encode xs) \<subseteq> set hextable"
proof (induction xs)
  case Nil
  show ?case by simp
next
  case (Cons v xs)
  have "unat v div 16 < 16" using unsigned_less [of v, where 'a = nat] by simp
  then have "hextable ! unat (drop_bit 4 v) \<in> set hextable"
    by (simp add: unat_high_nibble hextable_nth_mem)
  moreover have "hextable ! unat (v AND 0x0f) \<in> set hextable"
    by (simp add: unat_low_nibble hextable_nth_mem)
  ultimately show ?case using Cons.IH by simp
qed

lemma hex_Encode_no_hyphen: "CHR ''-'' \<notin> set (hex_Encode xs)"
proof -
  have "CHR ''-'' \<notin> set hextable" by (simp add: hextable_def)
  then show ?thesis using hex_Encode_set [of xs] by blast
qed

lemma filter_hex_Encode: "filter (\<lambda>c. c \<noteq> CHR ''-'') (hex_Encode xs) = hex_Encode xs"
  using hex_Encode_no_hyphen [of xs] by (auto simp add: filter_id_conv)

lemma groups_of_uuid:
  "take 4 u @ take 2 (drop 4 u) @ take 2 (drop 6 u) @ take 2 (drop 8 u) @ drop 10 u = u"
proof -
  have "take 2 (drop 8 u) @ drop 10 u = drop 8 u"
    using append_take_drop_id [of 2 "drop 8 u"] by simp
  then have "take 2 (drop 6 u) @ take 2 (drop 8 u) @ drop 10 u = drop 6 u"
    using append_take_drop_id [of 2 "drop 6 u"] by simp
  then have "take 2 (drop 4 u) @ take 2 (drop 6 u) @ take 2 (drop 8 u) @ drop 10 u = drop 4 u"
    using append_take_drop_id [of 2 "drop 4 u"] by simp
  then show ?thesis by simp
qed

lemma cleanedUUID_eq: "ReplaceAll_hyphen (UUID_String u) = hex_Encode u"
proof -
  have "ReplaceAll_hyphen (UUID_String u) =
      hex_Encode (take 4 u @ take 2 (drop 4 u) @ take 2 (drop 6 u) @ take 2 (drop 8 u) @ drop 10 u)"
    by (simp add: ReplaceAll_hyphen_def UUID_String_def filter_hex_Encode hex_Encode_append)
  then show ?thesis by (simp only: groups_of_uuid)
qed



text \<open>
  C9. The staging-table name is \<open>temp_\<close>, the table name, \<open>_\<close> and the UUID with its
  hyphens removed, which is the 32 lower-case hexadecimal digits of its 16 bytes and
  holds no hyphen; two calls that draw distinct UUIDs produce distinct names, whatever
  their table names.
\<close>

theorem generateUniqueTempTableName_distinct:
  assumes "length u1 = 16" and "length u2 = 16"
  shows "generateUniqueTempTableName table1 u1
           = ''temp_'' @ table1 @ ''_'' @ ReplaceAll_hyphen (UUID_String u1)
     \<and> ReplaceAll_hyphen (UUID_String u1) = hex_Encode u1
     \<and> length (ReplaceAll_hyphen (UUID_String u1)) = 32
     \<and> set (ReplaceAll_hyphen (UUID_String u1)) \<subseteq> set ''0123456789abcdef''
     \<and> CHR ''-'' \<notin> set (ReplaceAll_hyphen (UUID_String u1))
     \<and> (u1 \<noteq> u2 \<longrightarrow>
          generateUniqueTempTableName table1 u1 \<noteq> generateUniqueTempTableName table2 u2)"
proof -
  have len: "length (hex_Encode u1) = length (hex_Encode u2)"
    using assms by (simp add: hex_Encode_length)
  have "u1 = u2"
    if "generateUniqueTempTableName table1 u1 = generateUniqueTempTableName table2 u2"
  proof -
    from that have "(table1 @ ''_'') @ hex_Encode u1 = (table2 @ ''_'') @ hex_Encode u2"
      by (simp add: generateUniqueTempTableName_def cleanedUUID_eq)
    then have "hex_Encode u1 = hex_Encode u2"
      using len by (metis append_eq_append_conv)
    then show ?thesis by (rule hex_Encode_inj)
  qed
  moreover have "set (hex_Encode u1) \<subseteq> set ''0123456789abcdef''"
    using hex_Encode_set [of u1] by (simp add: hextable_def)
  ultimately show ?thesis
    using assms(1)
    by (auto simp add: generateUniqueTempTableName_def cleanedUUID_eq hex_Encode_length
          hex_Encode_no_hyphen)
qed

theorem generateUniqueTempTableName_distinct_witness:
  "length example_uuid = 16 \<and> length (example_uuid[15 := 1]) = 16
   \<and> generateUniqueTempTableName ''prices'' example_uuid
       = ''temp_prices_123e4567e89b42d3a456426614174000''
   \<and> generateUniqueTempTableName ''prices'' example_uuid
       \<noteq> generateUniqueTempTableName ''prices'' (example_uuid[15 := 1])"
proof -
  have h1: "length example_uuid = 16" by (simp add: example_uuid_def)
  have h2: "length (example_uuid[15 := 1]) = 16" by (simp add: example_uuid_def)
  have ne: "example_uuid \<noteq> example_uuid[15 := 1]" by (simp add: example_uuid_def)
  have v: "ReplaceAll_hyphen (UUID_String example_uuid) = ''123e4567e89b42d3a456426614174000''"
    by (simp add: ReplaceAll_hyphen_def UUID_String_def example_uuid_def hextable_def)
  note t = generateUniqueTempTableName_distinct [OF h1 h2, of "''prices''" "''prices''"]
  have a: "generateUniqueTempTableName ''prices'' example_uuid
             = ''temp_prices_123e4567e89b42d3a456426614174000''"
    using t v by simp
  have b: "generateUniqueTempTableName ''prices'' example_uuid
             \<noteq> generateUniqueTempTableName ''prices'' (example_uuid[15 := 1])"
    using t ne by blast
  show ?thesis using h1 h2 a b by blast
qed

section \<open>Properties of the transaction\<close>

text \<open>
  C8. With an empty record sequence \<^verbatim>\<open>InsertBulkData\<close> returns no error and leaves
  the world as it was: no call is made on the pool, so no transaction is begun, no
  staging table is created and nothing is written.
\<close>

theorem InsertBulkData_empty:
  "InsertBulkData L drv uniqueID [] table primaryKey s = (None, s)"
  by (simp add: InsertBulkData_def)

text \<open>
  C1. Once the transaction has been begun, \<^verbatim>\<open>InsertBulkData\<close> returns with the
  transaction closed and with \<^verbatim>\<open>Rollback\<close> as the last call it made. When it
  returns an error, that error is the one returned by the first failing step (staging
  table, bulk copy, merge statement or commit), and the committed content is what it
  was before the call. When it returns no error, all four steps succeeded and the
  committed content is the working content at the commit: the rollback undid nothing.
\<close>

theorem InsertBulkData_rollback:
  assumes "data \<noteq> []" and "Begin_result drv = None"
    and "InsertBulkData L drv uniqueID data table primaryKey s = (res, s')"
    and "columns = getColumns L data"
    and "rows = fst (formatToBinaryData L (formatTimestamps L data columns) columns)"
    and "tempTable = generateUniqueTempTableName table uniqueID"
    and "createStmt = ''CREATE TEMPORARY TABLE '' @ tempTable @ '' AS TABLE '' @ table
                        @ '' WITH NO DATA''"
  shows "tx s' = None \<and> calls s' \<noteq> [] \<and> last (calls s') = CallRollback
     \<and> (\<forall>e. res = Some e \<longrightarrow>
           committed s' = committed s
           \<and> (Exec_result drv createStmt (committed s) = Inl e
              \<or> (\<exists>w1. Exec_result drv createStmt (committed s) = Inr w1
                    \<and> (CopyFrom_result drv tempTable columns (newMapCopyFromSource rows columns) w1
                          = Inl e
                       \<or> (\<exists>w2. CopyFrom_result drv tempTable columns
                                  (newMapCopyFromSource rows columns) w1 = Inr w2
                             \<and> (Exec_result drv (insertStmt table columns tempTable primaryKey) w2
                                   = Inl e
                                \<or> (\<exists>w3. Exec_result drv
                                           (insertStmt table columns tempTable primaryKey) w2 = Inr w3
                                      \<and> Commit_result drv w3 = Some e)))))))
     \<and> (res = None \<longrightarrow>
           (\<exists>w1 w2 w3. Exec_result drv createStmt (committed s) = Inr w1
              \<and> CopyFrom_result drv tempTable columns (newMapCopyFromSource rows columns) w1 = Inr w2
              \<and> Exec_result drv (insertStmt table columns tempTable primaryKey) w2 = Inr w3
              \<and> Commit_result drv w3 = None
              \<and> committed s' = w3))"
proof -
  obtain data2 out where f: "formatToBinaryData L (formatTimestamps L data columns) columns = (data2, out)"
    by (cases "formatToBinaryData L (formatTimestamps L data columns) columns")
  then have rows: "rows = data2" using assms(5) by simp
  show ?thesis
    using assms(1,2,3)
    unfolding rows assms(7)
    by (auto simp add: InsertBulkData_def InsertBulkData_steps_def Let_def Pool_Begin_def
          tx_Exec_def tx_CopyFrom_def tx_Commit_def tx_Rollback_def f
          assms(4) [symmetric] assms(6) [symmetric]
          split: prod.splits option.splits sum.splits if_splits)
qed

lemma example_InsertBulkData_commits:
  "fst (InsertBulkData example_libs example_pgx example_uuid [example_record]
          ''prices'' [''id''] example_world) = None
   \<and> length (committed (snd (InsertBulkData example_libs example_pgx example_uuid
          [example_record] ''prices'' [''id''] example_world))) = 3"
  by (simp add: InsertBulkData_def InsertBulkData_steps_def Let_def Pool_Begin_def
        tx_Exec_def tx_CopyFrom_def tx_Commit_def tx_Rollback_def
        example_pgx_def example_world_def split: prod.splits)

theorem InsertBulkData_rollback_witness:
  "[example_record] \<noteq> [] \<and> Begin_result example_pgx_merge_fails = None
   \<and> fst (InsertBulkData example_libs example_pgx_merge_fails example_uuid [example_record]
            ''prices'' [''id''] example_world) = Some (PgError ''duplicate key'')
   \<and> committed (snd (InsertBulkData example_libs example_pgx_merge_fails example_uuid
                       [example_record] ''prices'' [''id''] example_world)) = []
   \<and> tx (snd (InsertBulkData example_libs example_pgx_merge_fails example_uuid
                 [example_record] ''prices'' [''id''] example_world)) = None
   \<and> last (calls (snd (InsertBulkData example_libs example_pgx_merge_fails example_uuid
                          [example_record] ''prices'' [''id''] example_world))) = CallRollback
   \<and> Begin_result example_pgx = None
   \<and> fst (InsertBulkData example_libs example_pgx example_uuid [example_record]
            ''prices'' [''id''] example_world) = None
   \<and> length (committed (snd (InsertBulkData example_libs example_pgx example_uuid
                               [example_record] ''prices'' [''id''] example_world))) = 3
   \<and> tx (snd (InsertBulkData example_libs example_pgx example_uuid
                 [example_record] ''prices'' [''id''] example_world)) = None
   \<and> last (calls (snd (InsertBulkData example_libs example_pgx example_uuid
                          [example_record] ''prices'' [''id''] example_world))) = CallRollback"
proof -
  have h1: "[example_record] \<noteq> []" by simp
  have h2: "Begin_result example_pgx_merge_fails = None"
    by (simp add: example_pgx_merge_fails_def example_pgx_def)
  have h3: "Begin_result example_pgx = None"
    by (simp add: example_pgx_def)
  have r: "fst (InsertBulkData example_libs example_pgx_merge_fails example_uuid [example_record]
              ''prices'' [''id''] example_world) = Some (PgError ''duplicate key'')"
    by (simp add: InsertBulkData_def InsertBulkData_steps_def Let_def Pool_Begin_def
          tx_Exec_def tx_CopyFrom_def tx_Commit_def tx_Rollback_def example_pgx_merge_fails_def
          example_pgx_def example_world_def insertStmt_def getColumns_def
          split: prod.splits)
  note t = InsertBulkData_rollback [OF h1 h2 prod.collapse [symmetric] refl refl refl refl,
      of example_libs example_uuid "''prices''" "[''id'']" example_world]
  note u = InsertBulkData_rollback [OF h1 h3 prod.collapse [symmetric] refl refl refl refl,
      of example_libs example_uuid "''prices''" "[''id'']" example_world]
  have c: "committed (snd (InsertBulkData example_libs example_pgx_merge_fails example_uuid
                       [example_record] ''prices'' [''id''] example_world)) = committed example_world"
    using t r by blast
  have d: "tx (snd (InsertBulkData example_libs example_pgx example_uuid
                 [example_record] ''prices'' [''id''] example_world)) = None
     \<and> last (calls (snd (InsertBulkData example_libs example_pgx example_uuid
                          [example_record] ''prices'' [''id''] example_world))) = CallRollback"
    using u by blast
  show ?thesis using h1 h2 h3 r c d t example_InsertBulkData_commits by (simp add: example_world_def)
qed

end
